theory Spec2Isabelle
  imports Main "HOL-Library.Word"
begin

section \<open>Membership change of a Raft node (handle\_join\_leave.cxx)\<close>

text \<open>
  A shallow embedding of the join/leave handlers of \<^verbatim>\<open>raft_server\<close>. The server object
  is a record that every handler takes and returns; the calls a handler makes on its
  collaborators (sending a request through a peer, the state machine's release
  callback, the replication trigger, persisting the node state) are appended to the
  field \<open>effects\<close> in the order the code makes them. A null pointer that the code
  dereferences is the error \<open>Null_pointer\<close>. Trace output (\<^verbatim>\<open>p_db\<close>, \<^verbatim>\<open>p_in\<close>,
  \<^verbatim>\<open>p_wn\<close>, \<^verbatim>\<open>p_er\<close>) is not modelled.
\<close>

subsection \<open>Machine integers\<close>

type_synonym int32 = "32 word"
type_synonym ulong = "64 word"

subsection \<open>Enumerations\<close>

datatype srv_role = Follower | Candidate | Leader

datatype log_val_type = app_log | conf | cluster_server | log_pack | snp_sync_req | custom

datatype msg_type =
    add_server_request | add_server_response
  | remove_server_request | remove_server_response
  | sync_log_request | sync_log_response
  | join_cluster_request | join_cluster_response
  | leave_cluster_request | leave_cluster_response
  | install_snapshot_request | other_request

datatype cmd_result_code =
    OK | NOT_LEADER | BAD_REQUEST | SERVER_ALREADY_EXISTS | CONFIG_CHANGING
  | SERVER_IS_JOINING | SERVER_NOT_FOUND | CANNOT_REMOVE_LEADER

datatype error = Null_pointer | Bad_buffer

subsection \<open>Configurations, buffers and log entries\<close>

text \<open>
  Modelled from the spec: \<^verbatim>\<open>srv_config.hxx\<close> and \<^verbatim>\<open>cluster_config.hxx\<close> are not part of
  the unit. A member descriptor has a numeric id, an endpoint and a learner flag; a
  configuration has the log index where it was proposed, the log index of the previous
  version, the asynchronous replication flag, a user context and the ordered member
  descriptors.
\<close>

record srv_config =
  sc_id :: int32
  sc_endpoint :: string
  sc_learner :: bool

record cluster_config =
  log_idx :: ulong
  prev_log_idx :: ulong
  async_replication :: bool
  user_ctx :: string
  servers :: "srv_config list"

text \<open>
  Modelled from the spec: \<^verbatim>\<open>buffer.hxx\<close> and the serialisation formats are not part of
  the unit. A buffer is modelled by what was serialised into it, so that
  \<open>serialize\<close> is a constructor and \<open>deserialize\<close> succeeds exactly on the
  buffers its \<open>serialize\<close> produced; a log entry has a term, a buffer and a value
  type, the value type being independent of what the buffer holds, as in the code.
\<close>

datatype buffer =
    Buf_int int32
  | Buf_srv srv_config
  | Buf_conf cluster_config
  | Buf_pack "log_entry list"
  | Buf_data "8 word list"
and log_entry =
    Log_entry (le_term: ulong) (le_buf: buffer) (le_val_type: log_val_type)

text \<open>
  Modelled from the spec: \<^verbatim>\<open>srv_config::deserialize\<close>, \<^verbatim>\<open>cluster_config::deserialize\<close> and
  the reading of a log pack.
\<close>

fun srv_config_deserialize :: "buffer \<Rightarrow> srv_config option" where
  "srv_config_deserialize (Buf_srv c) = Some c"
| "srv_config_deserialize _ = None"

fun cluster_config_deserialize :: "buffer \<Rightarrow> cluster_config option" where
  "cluster_config_deserialize (Buf_conf c) = Some c"
| "cluster_config_deserialize _ = None"

fun pack_deserialize :: "buffer \<Rightarrow> log_entry list option" where
  "pack_deserialize (Buf_pack es) = Some es"
| "pack_deserialize _ = None"

text \<open>
  Modelled from the spec: the size of a buffer and \<^verbatim>\<open>get_int\<close>. The buffers of
  \<^verbatim>\<open>sz_int\<close> bytes are the buffer an \<^verbatim>\<open>int32\<close> was put into and the raw buffers of four
  bytes, which \<^verbatim>\<open>get_int\<close> reads with the least significant byte first; the serialised
  form of a member descriptor, of a configuration or of a log pack is taken to be of
  another size. \<open>get_int b\<close> is \<open>None\<close> when the size of \<open>b\<close> is not
  \<^verbatim>\<open>sz_int\<close>, so that the test \<^verbatim>\<open>size() != sz_int\<close> of the remove request is
  \<open>get_int b = None\<close>, and the \<^verbatim>\<open>int32\<close> that is read otherwise.
\<close>

fun get_int :: "buffer \<Rightarrow> int32 option" where
  "get_int (Buf_int v) = Some v"
| "get_int (Buf_data [b0, b1, b2, b3]) =
     Some (ucast b0 + push_bit 8 (ucast b1) + push_bit 16 (ucast b2) + push_bit 24 (ucast b3))"
| "get_int _ = None"

subsection \<open>Messages\<close>

record req_msg =
  rq_term :: ulong
  rq_type :: msg_type
  rq_src :: int32
  rq_dst :: int32
  rq_last_log_term :: ulong
  rq_last_log_idx :: ulong
  rq_commit_idx :: ulong
  rq_log_entries :: "log_entry list"

record resp_msg =
  rs_term :: ulong
  rs_type :: msg_type
  rs_src :: int32
  rs_dst :: int32
  rs_next_idx :: ulong
  rs_accepted :: bool
  rs_result_code :: cmd_result_code

text \<open>
  Modelled from the spec: \<^verbatim>\<open>req_msg.hxx\<close> and \<^verbatim>\<open>resp_msg.hxx\<close> are not part of the unit.
  A request is built with an empty entry list; a response is built rejected, with
  result code \<open>OK\<close> and the next index given to the constructor (0 when none is
  given); \<^verbatim>\<open>accept\<close> sets the accept flag and the next index.
\<close>

definition new_req ::
  "ulong \<Rightarrow> msg_type \<Rightarrow> int32 \<Rightarrow> int32 \<Rightarrow> ulong \<Rightarrow> ulong \<Rightarrow> ulong \<Rightarrow> req_msg" where
  "new_req t ty src dst last_log_term last_log_idx commit_idx =
     \<lparr>rq_term = t, rq_type = ty, rq_src = src, rq_dst = dst,
      rq_last_log_term = last_log_term, rq_last_log_idx = last_log_idx,
      rq_commit_idx = commit_idx, rq_log_entries = []\<rparr>"

definition new_resp :: "ulong \<Rightarrow> msg_type \<Rightarrow> int32 \<Rightarrow> int32 \<Rightarrow> ulong \<Rightarrow> resp_msg" where
  "new_resp t ty src dst next_idx =
     \<lparr>rs_term = t, rs_type = ty, rs_src = src, rs_dst = dst,
      rs_next_idx = next_idx, rs_accepted = False, rs_result_code = OK\<rparr>"

definition accept :: "ulong \<Rightarrow> resp_msg \<Rightarrow> resp_msg" where
  "accept next_idx resp = resp\<lparr>rs_next_idx := next_idx, rs_accepted := True\<rparr>"

definition set_result_code :: "cmd_result_code \<Rightarrow> resp_msg \<Rightarrow> resp_msg" where
  "set_result_code rc resp = resp\<lparr>rs_result_code := rc\<rparr>"

text \<open>
  What a peer is asked to send: a request message, or the snapshot transfer request of
  \<^verbatim>\<open>create_sync_snapshot_req\<close>.

  Modelled from the spec: \<^verbatim>\<open>create_sync_snapshot_req\<close> is not part of the unit; only the
  identity of its request belongs here: target peer, starting index, term, commit index.
\<close>

datatype out_msg =
    Msg req_msg
  | Snapshot_req (sn_peer: int32) (sn_start: ulong) (sn_term: ulong) (sn_commit: ulong)

datatype effect =
    Send_req int32 out_msg
  | Free_user_snp_ctx ulong
  | Request_append_entries
  | Cb_become_follower int32 int32
  | Save_state ulong int32
  | Enable_hb int32 bool

subsection \<open>Peers, the log store, the parameters and the server\<close>

text \<open>
  Modelled from the spec: \<^verbatim>\<open>peer.hxx\<close> is not part of the unit. A Peer Handle has the
  member descriptor it was built from, the replication cursors, the leave flag, the
  heartbeat switch, the stepping-down flag, the normal and the current heartbeat
  interval, the time since its last activity in microseconds (what
  \<^verbatim>\<open>get_active_timer_us\<close> returns when the handler runs) and, when a snapshot transfer
  context exists, the user pointer that context owns.
\<close>

record peer =
  p_config :: srv_config
  next_log_idx :: ulong
  matched_idx :: ulong
  leave_flag :: bool
  hb_enabled :: bool
  stepping_down :: bool
  hb_interval :: int32
  current_hb_interval :: int32
  active_timer_us :: ulong
  snapshot_sync_ctx :: "ulong option"

definition peer_id :: "peer \<Rightarrow> int32" where
  "peer_id p = sc_id (p_config p)"

text \<open>
  Modelled from the spec: \<^verbatim>\<open>log_store.hxx\<close> is an external collaborator. The store
  keeps the entries from its earliest retained index on; the next slot follows the last
  entry; \<^verbatim>\<open>pack\<close> takes up to \<open>cnt\<close> consecutive entries from an index on;
  \<^verbatim>\<open>apply_pack\<close> writes the entries of a pack from an index on.
\<close>

record log_store =
  start_index :: ulong
  entries :: "log_entry list"

definition next_slot :: "log_store \<Rightarrow> ulong" where
  "next_slot ls = start_index ls + of_nat (length (entries ls))"

definition ls_append :: "log_entry \<Rightarrow> log_store \<Rightarrow> log_store" where
  "ls_append e ls = ls\<lparr>entries := entries ls @ [e]\<rparr>"

definition pack :: "log_store \<Rightarrow> ulong \<Rightarrow> int32 \<Rightarrow> buffer" where
  "pack ls idx cnt =
     Buf_pack (take (nat (sint cnt)) (drop (unat (idx - start_index ls)) (entries ls)))"

definition apply_pack :: "ulong \<Rightarrow> log_entry list \<Rightarrow> log_store \<Rightarrow> log_store" where
  "apply_pack idx es ls =
     (let k = unat (idx - start_index ls)
      in ls\<lparr>entries := take k (entries ls) @ es @ drop (k + length es) (entries ls)\<rparr>)"

text \<open>
  The parameters the unit reads. \<open>response_limit\<close> is the constant
  \<^verbatim>\<open>peer::RESPONSE_LIMIT\<close>, whose declaration is not part of the unit.
\<close>

record raft_params =
  heart_beat_interval :: int32
  log_sync_stop_gap :: int32
  log_sync_batch_size :: int32
  response_limit :: int32

record server =
  my_id :: int32
  leader :: int32
  role :: srv_role
  write_paused :: bool
  state_term :: ulong
  state_voted_for :: int32
  params :: raft_params
  config :: cluster_config
  uncommitted_config :: "cluster_config option"
  config_changing :: bool
  srv_to_join :: "peer option"
  conf_to_add :: "srv_config option"
  catching_up :: bool
  steps_to_down :: int32
  sm_commit_index :: ulong
  quick_commit_index :: ulong
  precommit_index :: ulong
  initial_commit_index :: ulong
  peers :: "int32 \<rightharpoonup> peer"
  log_store :: log_store
  effects :: "effect list"

subsection \<open>Collaborators of the unit\<close>

definition emit :: "effect \<Rightarrow> server \<Rightarrow> server" where
  "emit e s = s\<lparr>effects := effects s @ [e]\<rparr>"

text \<open>
  Modelled from the spec: the constructor of \<^verbatim>\<open>peer\<close>. A fresh handle has no snapshot
  context, no flag set, its cursors at the start and its activity timer just reset.
\<close>

definition new_peer :: "srv_config \<Rightarrow> raft_params \<Rightarrow> peer" where
  "new_peer c ps =
     \<lparr>p_config = c, next_log_idx = 1, matched_idx = 0, leave_flag = False,
      hb_enabled = False, stepping_down = False,
      hb_interval = heart_beat_interval ps, current_hb_interval = heart_beat_interval ps,
      active_timer_us = 0, snapshot_sync_ctx = None\<rparr>"

text \<open>
  Modelled from the spec: \<^verbatim>\<open>store_log_entry\<close>, \<^verbatim>\<open>request_append_entries\<close>, \<^verbatim>\<open>commit\<close>
  and \<^verbatim>\<open>reconfigure\<close> live in other units of \<^verbatim>\<open>raft_server\<close>. The first appends the
  entry to the log store, the second is the replication trigger, the third advances the
  commit marker to its target, the last installs a configuration as the current one.
\<close>

definition store_log_entry :: "log_entry \<Rightarrow> server \<Rightarrow> server" where
  "store_log_entry e s = s\<lparr>log_store := ls_append e (log_store s)\<rparr>"

definition request_append_entries :: "server \<Rightarrow> server" where
  "request_append_entries s = emit Request_append_entries s"

definition commit :: "ulong \<Rightarrow> server \<Rightarrow> server" where
  "commit target s =
     (if quick_commit_index s < target then s\<lparr>quick_commit_index := target\<rparr> else s)"

definition reconfigure :: "cluster_config \<Rightarrow> server \<Rightarrow> server" where
  "reconfigure c s = s\<lparr>config := c\<rparr>"

definition create_sync_snapshot_req :: "peer \<Rightarrow> ulong \<Rightarrow> ulong \<Rightarrow> ulong \<Rightarrow> out_msg" where
  "create_sync_snapshot_req p start_idx t commit_idx =
     Snapshot_req (peer_id p) start_idx t commit_idx"

subsection \<open>Leader side: adding a server\<close>

text \<open>\<^verbatim>\<open>reset_srv_to_join\<close> reads the snapshot context through \<^verbatim>\<open>srv_to_join_\<close>.\<close>

definition reset_srv_to_join :: "server \<Rightarrow> error + server" where
  "reset_srv_to_join s =
     (case srv_to_join s of
        None \<Rightarrow> Inl Null_pointer
      | Some p \<Rightarrow>
          (let s1 = (case snapshot_sync_ctx p of
                       Some snp_ctx \<Rightarrow> emit (Free_user_snp_ctx snp_ctx) s
                     | None \<Rightarrow> s)
           in Inr (s1\<lparr>srv_to_join := None\<rparr>)))"

definition invite_srv_to_join_cluster :: "server \<Rightarrow> error + server" where
  "invite_srv_to_join_cluster s =
     (case srv_to_join s of
        None \<Rightarrow> Inl Null_pointer
      | Some p \<Rightarrow>
          (let req = new_req (state_term s) join_cluster_request (my_id s) (peer_id p)
                       0 (next_slot (log_store s) - 1) (quick_commit_index s);
               c_conf = config s;
               req = req\<lparr>rq_log_entries :=
                       rq_log_entries req @ [Log_entry (state_term s) (Buf_conf c_conf) conf]\<rparr>
           in Inr (emit (Send_req (peer_id p) (Msg req)) s)))"

text \<open>
  \<^verbatim>\<open>last_active_ms\<close> and the bound it is compared with, both \<^verbatim>\<open>ulong\<close>: the constant and
  the \<^verbatim>\<open>int32\<close> interval are converted to \<^verbatim>\<open>ulong\<close> before they are multiplied.
\<close>

definition last_active_ms :: "peer \<Rightarrow> ulong" where
  "last_active_ms p = active_timer_us p div 1000"

definition liveness_limit :: "raft_params \<Rightarrow> ulong" where
  "liveness_limit ps = scast (response_limit ps) * scast (heart_beat_interval ps)"

text \<open>Lines 96 to 110 of \<^verbatim>\<open>handle_add_srv_req\<close>: the add starts.\<close>

definition start_add_srv :: "srv_config \<Rightarrow> resp_msg \<Rightarrow> server \<Rightarrow> error + (resp_msg \<times> server)" where
  "start_add_srv srv_conf resp s =
     (let s1 = s\<lparr>conf_to_add := Some srv_conf\<rparr>;
          s2 = s1\<lparr>srv_to_join := Some (new_peer srv_conf (params s1))\<rparr>
      in case invite_srv_to_join_cluster s2 of
           Inl e \<Rightarrow> Inl e
         | Inr s3 \<Rightarrow> Inr (accept (next_slot (log_store s3)) resp, s3))"

definition handle_add_srv_req :: "req_msg \<Rightarrow> server \<Rightarrow> error + (resp_msg \<times> server)" where
  "handle_add_srv_req req s =
     (let resp = new_resp (state_term s) add_server_response (my_id s) (leader s) 0
      in case rq_log_entries req of
           [e] \<Rightarrow>
             if le_val_type e \<noteq> cluster_server then Inr (set_result_code BAD_REQUEST resp, s)
             else if role s \<noteq> Leader \<or> write_paused s
               then Inr (set_result_code NOT_LEADER resp, s)
             else (case srv_config_deserialize (le_buf e) of
                 None \<Rightarrow> Inl Bad_buffer
               | Some srv_conf \<Rightarrow>
                   if peers s (sc_id srv_conf) \<noteq> None \<or> my_id s = sc_id srv_conf
                     then Inr (set_result_code SERVER_ALREADY_EXISTS resp, s)
                   else if config_changing s
                     then Inr (set_result_code CONFIG_CHANGING resp, s)
                   else (case srv_to_join s of
                       Some p \<Rightarrow>
                         if last_active_ms p \<le> liveness_limit (params s)
                           then Inr (set_result_code SERVER_IS_JOINING resp, s)
                         else (case reset_srv_to_join s of
                                 Inl err \<Rightarrow> Inl err
                               | Inr s1 \<Rightarrow> start_add_srv srv_conf resp s1)
                     | None \<Rightarrow> start_add_srv srv_conf resp s))
         | _ \<Rightarrow> Inr (set_result_code BAD_REQUEST resp, s))"

subsection \<open>Joining side\<close>

definition handle_join_cluster_req :: "req_msg \<Rightarrow> server \<Rightarrow> error + (resp_msg \<times> server)" where
  "handle_join_cluster_req req s =
     (let resp = new_resp (state_term s) join_cluster_response (my_id s) (rq_src req) 0
      in case rq_log_entries req of
           [e] \<Rightarrow>
             if le_val_type e \<noteq> conf then Inr (resp, s)
             else
               (let reset_commit_idx = \<not> catching_up s;
                    s1 = s\<lparr>catching_up := True, role := Follower, leader := rq_src req\<rparr>;
                    s2 = emit (Cb_become_follower (my_id s1) (leader s1)) s1;
                    s3 = (if reset_commit_idx
                          then s2\<lparr>sm_commit_index := initial_commit_index s2,
                                  quick_commit_index := initial_commit_index s2\<rparr>
                          else s2);
                    s4 = s3\<lparr>state_voted_for := - 1, state_term := rq_term req\<rparr>;
                    s5 = emit (Save_state (state_term s4) (state_voted_for s4)) s4
                in case cluster_config_deserialize (le_buf e) of
                     None \<Rightarrow> Inl Bad_buffer
                   | Some c \<Rightarrow>
                       (let s6 = reconfigure c s5
                        in Inr (accept (quick_commit_index s6 + 1) resp, s6)))
         | _ \<Rightarrow> Inr (resp, s))"

subsection \<open>Log synchronisation\<close>

text \<open>
  \<^verbatim>\<open>int32 gap = (int64_t)quick_commit_index_ - (int64_t)start_idx\<close>: the difference of
  the two 64-bit indices, narrowed to 32 bits. The comparison with the stop gap and the
  minimum with the batch size are signed.
\<close>

definition sync_gap :: "ulong \<Rightarrow> server \<Rightarrow> int32" where
  "sync_gap start_idx s = ucast (quick_commit_index s - start_idx)"

definition min_int32 :: "int32 \<Rightarrow> int32 \<Rightarrow> int32" where
  "min_int32 a b = (if b <s a then b else a)"

definition cur_or_uncommitted :: "server \<Rightarrow> cluster_config" where
  "cur_or_uncommitted s =
     (case uncommitted_config s of Some u \<Rightarrow> u | None \<Rightarrow> config s)"

definition sync_log_to_new_srv :: "ulong \<Rightarrow> server \<Rightarrow> error + server" where
  "sync_log_to_new_srv start_idx s =
     (let gap = sync_gap start_idx s
      in if gap <s log_sync_stop_gap (params s) then
           (let cur_conf = cur_or_uncommitted s
            in case conf_to_add s of
                 None \<Rightarrow> Inl Null_pointer
               | Some c \<Rightarrow>
                   (let new_conf = \<lparr>log_idx = next_slot (log_store s),
                                     prev_log_idx = log_idx cur_conf,
                                     async_replication = async_replication cur_conf,
                                     user_ctx = user_ctx cur_conf,
                                     servers = servers cur_conf @ [c]\<rparr>;
                        entry = Log_entry (state_term s) (Buf_conf new_conf) conf;
                        s1 = store_log_entry entry s;
                        s2 = s1\<lparr>config_changing := True\<rparr>;
                        s3 = s2\<lparr>uncommitted_config := Some new_conf\<rparr>
                    in Inr (request_append_entries s3)))
         else
           (case srv_to_join s of
              None \<Rightarrow> Inl Null_pointer
            | Some p \<Rightarrow>
                if start_idx < start_index (log_store s) then
                  Inr (emit (Send_req (peer_id p)
                         (create_sync_snapshot_req p start_idx (state_term s)
                            (quick_commit_index s))) s)
                else
                  (let size_to_sync = min_int32 gap (log_sync_batch_size (params s));
                       pk = pack (log_store s) start_idx size_to_sync;
                       req = new_req (state_term s) sync_log_request (my_id s) (peer_id p)
                               0 (start_idx - 1) (quick_commit_index s);
                       req = req\<lparr>rq_log_entries :=
                               rq_log_entries req @ [Log_entry (state_term s) pk log_pack]\<rparr>
                   in Inr (emit (Send_req (peer_id p) (Msg req)) s))))"

definition handle_join_cluster_resp :: "resp_msg \<Rightarrow> server \<Rightarrow> error + server" where
  "handle_join_cluster_resp resp s =
     (case srv_to_join s of
        Some p \<Rightarrow>
          if rs_accepted resp then sync_log_to_new_srv (rs_next_idx resp) s
          else Inr s
      | None \<Rightarrow> Inr s)"

definition handle_log_sync_req :: "req_msg \<Rightarrow> server \<Rightarrow> error + (resp_msg \<times> server)" where
  "handle_log_sync_req req s =
     (let resp = new_resp (state_term s) sync_log_response (my_id s) (rq_src req)
                   (next_slot (log_store s))
      in case rq_log_entries req of
           [e] \<Rightarrow>
             if le_val_type e \<noteq> log_pack then Inr (resp, s)
             else if \<not> catching_up s then Inr (resp, s)
             else (case pack_deserialize (le_buf e) of
                 None \<Rightarrow> Inl Bad_buffer
               | Some es \<Rightarrow>
                   (let s1 = s\<lparr>log_store := apply_pack (rq_last_log_idx req + 1) es (log_store s)\<rparr>;
                        s2 = s1\<lparr>precommit_index := next_slot (log_store s1) - 1\<rparr>;
                        s3 = commit (next_slot (log_store s2) - 1) s2
                    in Inr (accept (next_slot (log_store s3)) resp, s3)))
         | _ \<Rightarrow> Inr (resp, s))"

definition handle_log_sync_resp :: "resp_msg \<Rightarrow> server \<Rightarrow> error + server" where
  "handle_log_sync_resp resp s =
     (case srv_to_join s of
        Some p \<Rightarrow>
          (let p1 = p\<lparr>current_hb_interval := hb_interval p\<rparr>;
               p2 = p1\<lparr>next_log_idx := rs_next_idx resp\<rparr>;
               p3 = p2\<lparr>matched_idx := rs_next_idx resp - 1\<rparr>
           in sync_log_to_new_srv (rs_next_idx resp) (s\<lparr>srv_to_join := Some p3\<rparr>))
      | None \<Rightarrow> Inr s)"

subsection \<open>Removing a server\<close>

definition handle_rm_srv_req :: "req_msg \<Rightarrow> server \<Rightarrow> resp_msg \<times> server" where
  "handle_rm_srv_req req s =
     (let resp = new_resp (state_term s) remove_server_response (my_id s) (leader s) 0
      in case rq_log_entries req of
           [e] \<Rightarrow>
             (case get_int (le_buf e) of
                None \<Rightarrow> (set_result_code BAD_REQUEST resp, s)
              | Some srv_id \<Rightarrow>
                  if role s \<noteq> Leader \<or> write_paused s
                    then (set_result_code NOT_LEADER resp, s)
                  else if config_changing s
                    then (set_result_code CONFIG_CHANGING resp, s)
                  else if srv_id = my_id s
                    then (set_result_code CANNOT_REMOVE_LEADER resp, s)
                  else (case peers s srv_id of
                      None \<Rightarrow> (set_result_code SERVER_NOT_FOUND resp, s)
                    | Some p \<Rightarrow>
                        (let leave_req = new_req (state_term s) leave_cluster_request
                                           (my_id s) srv_id 0 (next_slot (log_store s) - 1)
                                           (quick_commit_index s);
                             s1 = emit (Send_req srv_id (Msg leave_req)) s;
                             s2 = s1\<lparr>peers := (peers s1)(srv_id \<mapsto> p\<lparr>leave_flag := True\<rparr>)\<rparr>
                         in (accept (next_slot (log_store s2)) resp, s2))))
         | _ \<Rightarrow> (set_result_code BAD_REQUEST resp, s))"

definition handle_leave_cluster_req :: "req_msg \<Rightarrow> server \<Rightarrow> resp_msg \<times> server" where
  "handle_leave_cluster_req req s =
     (let resp = new_resp (state_term s) leave_cluster_response (my_id s) (rq_src req) 0
      in if \<not> config_changing s
         then (let s1 = s\<lparr>steps_to_down := 2\<rparr>
               in (accept (next_slot (log_store s1)) resp, s1))
         else (resp, s))"

definition rm_srv_from_cluster :: "int32 \<Rightarrow> server \<Rightarrow> server" where
  "rm_srv_from_cluster srv_id s =
     (let s1 = (case peers s srv_id of
                  None \<Rightarrow> s
                | Some pp \<Rightarrow> s\<lparr>peers := (peers s)(srv_id \<mapsto> pp\<lparr>stepping_down := True\<rparr>)\<rparr>);
          cur_conf = cur_or_uncommitted s1;
          new_conf = \<lparr>log_idx = next_slot (log_store s1),
                      prev_log_idx = log_idx cur_conf,
                      async_replication = async_replication cur_conf,
                      user_ctx = user_ctx cur_conf,
                      servers = filter (\<lambda>c. sc_id c \<noteq> srv_id) (servers cur_conf)\<rparr>;
          s2 = s1\<lparr>config_changing := True\<rparr>;
          s3 = s2\<lparr>uncommitted_config := Some new_conf\<rparr>;
          entry = Log_entry (state_term s3) (Buf_conf new_conf) conf;
          s4 = store_log_entry entry s3
      in request_append_entries s4)"


subsection \<open>Failure recovery\<close>

text \<open>
  \<^verbatim>\<open>peers_.size() == 1\<close> is \<open>card (dom (peers s)) = 1\<close>. The heartbeat of the handle
  found in the peer set is switched off before the handle leaves the set; the call is
  recorded as the effect \<open>Enable_hb\<close>.
\<close>

definition handle_join_leave_rpc_err :: "msg_type \<Rightarrow> peer \<Rightarrow> server \<Rightarrow> error + server" where
  "handle_join_leave_rpc_err t_msg p s =
     (if t_msg = leave_cluster_request then
        (let s1 = (if card (dom (peers s)) = 1 then
                     (case peers s (peer_id p) of
                        Some q \<Rightarrow>
                          (let s' = emit (Enable_hb (peer_id p) False) s
                           in s'\<lparr>peers := (peers s')(peer_id p := None)\<rparr>)
                      | None \<Rightarrow> s)
                   else s)
         in Inr (rm_srv_from_cluster (peer_id p) s1))
      else reset_srv_to_join (s\<lparr>config_changing := False\<rparr>))"

subsection \<open>The invariant of the membership session\<close>


subsection \<open>Concrete clusters\<close>

text \<open>
  A leader (id 1) of a cluster of three, with two log entries, both committed, and the
  states and messages derived from it that the theorems below are run on.
\<close>

definition ex_params :: raft_params where
  "ex_params = \<lparr>heart_beat_interval = 100, log_sync_stop_gap = 99999,
                log_sync_batch_size = 1000, response_limit = 20\<rparr>"

definition ex_srv :: "int32 \<Rightarrow> srv_config" where
  "ex_srv i = \<lparr>sc_id = i, sc_endpoint = ''h:9000'', sc_learner = False\<rparr>"

definition ex_conf :: cluster_config where
  "ex_conf = \<lparr>log_idx = 1, prev_log_idx = 0, async_replication = False,
              user_ctx = ''ctx'', servers = [ex_srv 1, ex_srv 2, ex_srv 3]\<rparr>"

definition ex_log :: log_store where
  "ex_log = \<lparr>start_index = 1,
             entries = [Log_entry 1 (Buf_conf ex_conf) conf,
                        Log_entry 1 (Buf_data [7]) app_log]\<rparr>"

definition ex_leader :: server where
  "ex_leader =
     \<lparr>my_id = 1, leader = 1, role = Leader, write_paused = False, state_term = 1,
      state_voted_for = 1, params = ex_params, config = ex_conf,
      uncommitted_config = None, config_changing = False, srv_to_join = None,
      conf_to_add = None, catching_up = False, steps_to_down = 0,
      sm_commit_index = 2, quick_commit_index = 2, precommit_index = 2,
      initial_commit_index = 0,
      peers = [2 \<mapsto> new_peer (ex_srv 2) ex_params, 3 \<mapsto> new_peer (ex_srv 3) ex_params],
      log_store = ex_log, effects = []\<rparr>"

text \<open>Requests and responses: add server 4, remove server 3 or 1, server 3 agrees to leave.\<close>

definition ex_add_req :: req_msg where
  "ex_add_req = (new_req 1 add_server_request 0 1 0 0 0)
     \<lparr>rq_log_entries := [Log_entry 0 (Buf_srv (ex_srv 4)) cluster_server]\<rparr>"

definition ex_rm_req :: "int32 \<Rightarrow> req_msg" where
  "ex_rm_req i = (new_req 1 remove_server_request 0 1 0 0 0)
     \<lparr>rq_log_entries := [Log_entry 0 (Buf_int i) cluster_server]\<rparr>"


definition ex_join_reject :: resp_msg where
  "ex_join_reject = new_resp 1 join_cluster_response 4 1 0"

text \<open>
  The leader while server 4 is joining: the pending handle has a snapshot context, and
  was last active \<open>us\<close> microseconds ago.
\<close>

definition ex_stale_peer :: "ulong \<Rightarrow> peer" where
  "ex_stale_peer us =
     (new_peer (ex_srv 4) ex_params)\<lparr>active_timer_us := us, snapshot_sync_ctx := Some 77\<rparr>"

definition ex_joining :: "ulong \<Rightarrow> server" where
  "ex_joining us =
     ex_leader\<lparr>srv_to_join := Some (ex_stale_peer us), conf_to_add := Some (ex_srv 4)\<rparr>"

text \<open>The leader with an uncommitted configuration that has dropped server 3.\<close>

definition ex_uncommitted :: cluster_config where
  "ex_uncommitted = \<lparr>log_idx = 3, prev_log_idx = 1, async_replication = True,
                     user_ctx = ''new'', servers = [ex_srv 1, ex_srv 2]\<rparr>"

definition ex_changing :: server where
  "ex_changing =
     (ex_joining 0)\<lparr>uncommitted_config := Some ex_uncommitted, config_changing := True,
       log_store := ls_append (Log_entry 1 (Buf_conf ex_uncommitted) conf) ex_log\<rparr>"

text \<open>
  The leader with an uncommitted configuration that has dropped server 3 and taken
  server 4 in; server 4 has no handle in the peer set yet.
\<close>

definition ex_pending :: server where
  "ex_pending =
     ex_leader\<lparr>uncommitted_config :=
                 Some (ex_uncommitted\<lparr>servers := [ex_srv 1, ex_srv 2, ex_srv 4]\<rparr>),
       config_changing := True,
       log_store := ls_append
         (Log_entry 1 (Buf_conf (ex_uncommitted\<lparr>servers := [ex_srv 1, ex_srv 2, ex_srv 4]\<rparr>))
            conf) ex_log\<rparr>"

text \<open>An add request for server 2, which is in the peer set already.\<close>

definition ex_add_dup_req :: req_msg where
  "ex_add_dup_req = (new_req 1 add_server_request 0 1 0 0 0)
     \<lparr>rq_log_entries := [Log_entry 0 (Buf_srv (ex_srv 2)) cluster_server]\<rparr>"

text \<open>A node that is asked to join, and the request of the leader.\<close>

definition ex_new_node :: server where
  "ex_new_node =
     ex_leader\<lparr>my_id := 4, leader := - 1, role := Follower, state_term := 0,
       state_voted_for := - 1, peers := Map.empty, sm_commit_index := 5,
       quick_commit_index := 5, initial_commit_index := 1\<rparr>"

definition ex_join_req :: req_msg where
  "ex_join_req = (new_req 1 join_cluster_request 1 4 0 2 2)
     \<lparr>rq_log_entries := [Log_entry 1 (Buf_conf ex_conf) conf]\<rparr>"

definition ex_sync_req :: req_msg where
  "ex_sync_req = (new_req 1 sync_log_request 1 4 0 0 2)
     \<lparr>rq_log_entries := [Log_entry 1 (Buf_pack (entries ex_log)) log_pack]\<rparr>"

text \<open>A leader of a cluster of two: the only peer is server 2.\<close>

definition ex_two :: server where
  "ex_two = ex_leader\<lparr>peers := [2 \<mapsto> new_peer (ex_srv 2) ex_params],
              config := ex_uncommitted\<lparr>log_idx := 2\<rparr>\<rparr>"



text \<open>
  A leader whose log has passed index \<open>2^31\<close>: the store retains the indices
  2147483648 and 2147483649, both committed, and server 4 is joining with an empty log.
\<close>

definition ex_long_log :: server where
  "ex_long_log =
     (ex_joining 0)\<lparr>log_store := ex_log\<lparr>start_index := 2147483648\<rparr>,
       sm_commit_index := 2147483649, quick_commit_index := 2147483649,
       precommit_index := 2147483649\<rparr>"

section \<open>Properties\<close>

subsection \<open>Joining side\<close>

text \<open>
  Claim C6. For a join request with exactly one entry, of the configuration kind and
  holding a configuration, \<^verbatim>\<open>handle_join_cluster_req\<close> returns; the state machine and
  the quick commit index become the initial commit index when the node was not catching
  up on receipt, and stay what they were when it was; the response is accepted and its
  next index is the quick commit index, as the handler leaves it, plus one.
\<close>

theorem join_cluster_req_commit_indices:
  assumes one: "rq_log_entries req = [e]" and kind: "le_val_type e = conf"
    and buf: "cluster_config_deserialize (le_buf e) = Some c"
  shows "\<exists>resp s'. handle_join_cluster_req req s = Inr (resp, s') \<and>
           (\<not> catching_up s \<longrightarrow>
              sm_commit_index s' = initial_commit_index s \<and>
              quick_commit_index s' = initial_commit_index s) \<and>
           (catching_up s \<longrightarrow>
              sm_commit_index s' = sm_commit_index s \<and>
              quick_commit_index s' = quick_commit_index s) \<and>
           rs_accepted resp \<and> rs_next_idx resp = quick_commit_index s' + 1"
proof (cases "catching_up s")
  case True
  with one kind buf show ?thesis
    by (simp add: handle_join_cluster_req_def new_resp_def accept_def emit_def
          reconfigure_def Let_def)
next
  case False
  with one kind buf show ?thesis
    by (simp add: handle_join_cluster_req_def new_resp_def accept_def emit_def
          reconfigure_def Let_def)
qed

text \<open>
  The new node (commit indices 5, initial commit index 1) receives the join request
  first while it is not catching up, then while it is.
\<close>

theorem join_cluster_req_commit_indices_witness:
  "(\<exists>resp s'. handle_join_cluster_req ex_join_req ex_new_node = Inr (resp, s') \<and>
      sm_commit_index s' = 1 \<and> quick_commit_index s' = 1 \<and>
      rs_accepted resp \<and> rs_next_idx resp = 2) \<and>
   (\<exists>resp s'. handle_join_cluster_req ex_join_req (ex_new_node\<lparr>catching_up := True\<rparr>)
                 = Inr (resp, s') \<and>
      sm_commit_index s' = 5 \<and> quick_commit_index s' = 5 \<and>
      rs_accepted resp \<and> rs_next_idx resp = 6)"
  using join_cluster_req_commit_indices
          [of ex_join_req "Log_entry 1 (Buf_conf ex_conf) conf" ex_conf ex_new_node]
        join_cluster_req_commit_indices
          [of ex_join_req "Log_entry 1 (Buf_conf ex_conf) conf" ex_conf
              "ex_new_node\<lparr>catching_up := True\<rparr>"]
  by (auto simp: ex_join_req_def ex_new_node_def ex_leader_def)

text \<open>
  Claim C7. A sync-log request with exactly one entry, of the log-pack kind, that
  reaches a node which is not catching up is answered with a response that is not
  accepted and whose next index is the next slot of the log store; the server is left
  as it was, so the log store, the precommit index and the commit index are unchanged.
\<close>

theorem log_sync_req_ignored_unless_catching_up:
  assumes "rq_log_entries req = [e]" and "le_val_type e = log_pack" and "\<not> catching_up s"
  shows "\<exists>resp. handle_log_sync_req req s = Inr (resp, s) \<and>
           rs_next_idx resp = next_slot (log_store s) \<and> \<not> rs_accepted resp"
  using assms by (simp add: handle_log_sync_req_def new_resp_def)

theorem log_sync_req_ignored_witness:
  "\<exists>resp. handle_log_sync_req ex_sync_req ex_leader = Inr (resp, ex_leader) \<and>
     rs_next_idx resp = 3 \<and> \<not> rs_accepted resp"
  using log_sync_req_ignored_unless_catching_up
          [of ex_sync_req "Log_entry 1 (Buf_pack (entries ex_log)) log_pack" ex_leader]
  by (simp add: ex_sync_req_def ex_leader_def next_slot_def ex_log_def)

subsection \<open>Removing a server\<close>

text \<open>
  Claim C9. A remove request whose single entry holds the id of the node itself, at a
  node that passes the leader test (its role is leader and its writes are not paused)
  and has no configuration change in progress, is answered with
  \<open>CANNOT_REMOVE_LEADER\<close>, not accepted, and the server is left as it was: the peer
  set, the configurations and the session state are unchanged and nothing is sent.
\<close>

theorem rm_srv_req_cannot_remove_leader:
  assumes "rq_log_entries req = [e]" and "get_int (le_buf e) = Some (my_id s)"
    and "role s = Leader" and "\<not> write_paused s" and "\<not> config_changing s"
  shows "\<exists>resp. handle_rm_srv_req req s = (resp, s) \<and>
           rs_result_code resp = CANNOT_REMOVE_LEADER \<and> \<not> rs_accepted resp"
  using assms by (simp add: handle_rm_srv_req_def new_resp_def set_result_code_def)

theorem rm_srv_req_cannot_remove_leader_witness:
  "\<exists>resp. handle_rm_srv_req (ex_rm_req 1) ex_leader = (resp, ex_leader) \<and>
     rs_result_code resp = CANNOT_REMOVE_LEADER \<and> \<not> rs_accepted resp"
  using rm_srv_req_cannot_remove_leader
          [of "ex_rm_req 1" "Log_entry 0 (Buf_int 1) cluster_server" ex_leader]
  by (simp add: ex_rm_req_def ex_leader_def)

subsection \<open>Building the next configuration\<close>

text \<open>What \<^verbatim>\<open>rm_srv_from_cluster\<close> leaves in the fields it writes.\<close>

lemma rm_srv_from_cluster_fields:
  "config_changing (rm_srv_from_cluster srv_id s)"
  "uncommitted_config (rm_srv_from_cluster srv_id s) =
     Some \<lparr>log_idx = next_slot (log_store s),
           prev_log_idx = log_idx (cur_or_uncommitted s),
           async_replication = async_replication (cur_or_uncommitted s),
           user_ctx = user_ctx (cur_or_uncommitted s),
           servers = filter (\<lambda>c. sc_id c \<noteq> srv_id) (servers (cur_or_uncommitted s))\<rparr>"
  "entries (log_store (rm_srv_from_cluster srv_id s)) =
     entries (log_store s) @
     [Log_entry (state_term s)
        (Buf_conf \<lparr>log_idx = next_slot (log_store s),
           prev_log_idx = log_idx (cur_or_uncommitted s),
           async_replication = async_replication (cur_or_uncommitted s),
           user_ctx = user_ctx (cur_or_uncommitted s),
           servers = filter (\<lambda>c. sc_id c \<noteq> srv_id) (servers (cur_or_uncommitted s))\<rparr>) conf]"
  "effects (rm_srv_from_cluster srv_id s) = effects s @ [Request_append_entries]"
  "peers (rm_srv_from_cluster srv_id s) =
     (case peers s srv_id of
        None \<Rightarrow> peers s
      | Some pp \<Rightarrow> (peers s)(srv_id \<mapsto> pp\<lparr>stepping_down := True\<rparr>))"
  "srv_to_join (rm_srv_from_cluster srv_id s) = srv_to_join s"
  by (simp_all add: rm_srv_from_cluster_def Let_def cur_or_uncommitted_def store_log_entry_def
        ls_append_def request_append_entries_def emit_def split: option.splits)

text \<open>
  Claim C2. While an uncommitted configuration \<open>u\<close> exists, the configuration built
  by the completion branch of \<^verbatim>\<open>sync_log_to_new_srv\<close> has the members of \<open>u\<close>
  followed by the joining member, and the one built by \<^verbatim>\<open>rm_srv_from_cluster\<close> has the
  members of \<open>u\<close> but the removed id; in both the previous log index is the log index
  of \<open>u\<close> and the user context and the asynchronous replication flag are those of
  \<open>u\<close>, whatever the committed configuration is. It is stored as the uncommitted
  configuration and appended to the log as a configuration entry.
\<close>

theorem new_config_on_top_of_uncommitted:
  assumes "uncommitted_config s = Some u"
  shows "(sync_gap start_idx s <s log_sync_stop_gap (params s) \<and> conf_to_add s = Some c \<longrightarrow>
            (let new_conf = \<lparr>log_idx = next_slot (log_store s), prev_log_idx = log_idx u,
                              async_replication = async_replication u,
                              user_ctx = user_ctx u, servers = servers u @ [c]\<rparr>
             in \<exists>s'. sync_log_to_new_srv start_idx s = Inr s' \<and>
                  uncommitted_config s' = Some new_conf \<and>
                  entries (log_store s') =
                    entries (log_store s) @ [Log_entry (state_term s) (Buf_conf new_conf) conf])) \<and>
         (let new_conf = \<lparr>log_idx = next_slot (log_store s), prev_log_idx = log_idx u,
                           async_replication = async_replication u,
                           user_ctx = user_ctx u,
                           servers = filter (\<lambda>c. sc_id c \<noteq> srv_id) (servers u)\<rparr>;
              s' = rm_srv_from_cluster srv_id s
          in uncommitted_config s' = Some new_conf \<and>
             entries (log_store s') =
               entries (log_store s) @ [Log_entry (state_term s) (Buf_conf new_conf) conf])"
  using assms
  by (auto simp: sync_log_to_new_srv_def rm_srv_from_cluster_def Let_def cur_or_uncommitted_def
        store_log_entry_def ls_append_def request_append_entries_def emit_def
        split: option.splits)

text \<open>
  The committed configuration has the servers 1, 2 and 3 and the uncommitted one the
  servers 1 and 2: adding server 4 gives 1, 2, 4 and removing server 2 gives 1.
\<close>

theorem new_config_on_top_of_uncommitted_witness:
  "uncommitted_config ex_changing = Some ex_uncommitted \<and>
   config ex_changing = ex_conf \<and>
   (\<exists>s'. sync_log_to_new_srv 2 ex_changing = Inr s' \<and>
      uncommitted_config s' =
        Some \<lparr>log_idx = 4, prev_log_idx = 3, async_replication = True, user_ctx = ''new'',
              servers = [ex_srv 1, ex_srv 2, ex_srv 4]\<rparr>) \<and>
   uncommitted_config (rm_srv_from_cluster 2 ex_changing) =
     Some \<lparr>log_idx = 4, prev_log_idx = 3, async_replication = True, user_ctx = ''new'',
           servers = [ex_srv 1]\<rparr>"
  using new_config_on_top_of_uncommitted [of ex_changing ex_uncommitted 2 "ex_srv 4" 2]
  by (auto simp: Let_def ex_changing_def ex_joining_def ex_leader_def ex_uncommitted_def
        sync_gap_def ex_params_def word_sless_alt next_slot_def ls_append_def ex_log_def
        ex_srv_def)

text \<open>
  Claim C10. When the id has no handle in the peer set, \<^verbatim>\<open>rm_srv_from_cluster\<close> leaves
  the peer set as it is (no handle is stepped down) and goes on: the configuration
  without that id, built from the uncommitted configuration when there is one and from
  the current one when there is none, is stored as the uncommitted configuration and
  appended to the log as a configuration entry, \<open>config_changing\<close> is set and
  replication is triggered; nothing else changes.
\<close>

theorem rm_srv_from_cluster_without_peer:
  assumes "peers s srv_id = None"
  shows "let cur_conf = (case uncommitted_config s of Some u \<Rightarrow> u | None \<Rightarrow> config s);
             new_conf = \<lparr>log_idx = next_slot (log_store s),
                         prev_log_idx = log_idx cur_conf,
                         async_replication = async_replication cur_conf,
                         user_ctx = user_ctx cur_conf,
                         servers = filter (\<lambda>c. sc_id c \<noteq> srv_id) (servers cur_conf)\<rparr>
         in srv_id \<notin> sc_id ` set (servers new_conf) \<and>
            rm_srv_from_cluster srv_id s =
              s\<lparr>uncommitted_config := Some new_conf, config_changing := True,
                log_store := ls_append (Log_entry (state_term s) (Buf_conf new_conf) conf)
                               (log_store s),
                effects := effects s @ [Request_append_entries]\<rparr>"
proof (cases "uncommitted_config s")
  case None
  with assms show ?thesis
    by (auto simp: rm_srv_from_cluster_def Let_def cur_or_uncommitted_def store_log_entry_def
          request_append_entries_def emit_def)
next
  case (Some u)
  with assms show ?thesis
    by (auto simp: rm_srv_from_cluster_def Let_def cur_or_uncommitted_def store_log_entry_def
          request_append_entries_def emit_def)
qed

text \<open>
  Server 4 is in the uncommitted configuration (servers 1, 2, 4) and has no handle:
  removing it gives the servers 1 and 2 on top of the uncommitted configuration, not
  of the committed one (servers 1, 2, 3). Without an uncommitted configuration, and
  with server 3 in the committed one but without a handle, removing 3 builds on the
  committed configuration.
\<close>

theorem rm_srv_from_cluster_without_peer_witness:
  "peers ex_pending 4 = None \<and>
   servers (config ex_pending) = [ex_srv 1, ex_srv 2, ex_srv 3] \<and>
   peers (rm_srv_from_cluster 4 ex_pending) = peers ex_pending \<and>
   config_changing (rm_srv_from_cluster 4 ex_pending) \<and>
   uncommitted_config (rm_srv_from_cluster 4 ex_pending) =
     Some \<lparr>log_idx = 4, prev_log_idx = 3, async_replication = True, user_ctx = ''new'',
           servers = [ex_srv 1, ex_srv 2]\<rparr> \<and>
   entries (log_store (rm_srv_from_cluster 4 ex_pending)) =
     entries (log_store ex_pending) @
     [Log_entry 1 (Buf_conf \<lparr>log_idx = 4, prev_log_idx = 3, async_replication = True,
                            user_ctx = ''new'', servers = [ex_srv 1, ex_srv 2]\<rparr>) conf] \<and>
   effects (rm_srv_from_cluster 4 ex_pending) = [Request_append_entries] \<and>
   peers (ex_two\<lparr>config := ex_conf\<rparr>) 3 = None \<and>
   uncommitted_config (ex_two\<lparr>config := ex_conf\<rparr>) = None \<and>
   peers (rm_srv_from_cluster 3 (ex_two\<lparr>config := ex_conf\<rparr>)) = peers ex_two \<and>
   config_changing (rm_srv_from_cluster 3 (ex_two\<lparr>config := ex_conf\<rparr>)) \<and>
   uncommitted_config (rm_srv_from_cluster 3 (ex_two\<lparr>config := ex_conf\<rparr>)) =
     Some \<lparr>log_idx = 3, prev_log_idx = 1, async_replication = False, user_ctx = ''ctx'',
           servers = [ex_srv 1, ex_srv 2]\<rparr> \<and>
   effects (rm_srv_from_cluster 3 (ex_two\<lparr>config := ex_conf\<rparr>)) = [Request_append_entries]"
  using rm_srv_from_cluster_without_peer [of ex_pending 4]
        rm_srv_from_cluster_without_peer [of "ex_two\<lparr>config := ex_conf\<rparr>" 3]
  by (simp add: Let_def ex_pending_def ex_two_def ex_leader_def ex_uncommitted_def ex_conf_def
        next_slot_def ls_append_def ex_log_def ex_srv_def)

subsection \<open>Adding a server while another add is in progress\<close>

lemma uint_scast_nonneg:
  fixes w :: int32
  assumes "0 \<le> sint w"
  shows "uint (scast w :: ulong) = sint w"
proof -
  have "sint w < 2 ^ 31" using sint_lt [of w] by simp
  then have "sint w < 2 ^ 64" by simp
  then have "take_bit 64 (sint w) = sint w"
    using assms by (simp only: take_bit_int_eq_self)
  moreover have "uint (scast w :: ulong) = take_bit 64 (sint w)"
    unfolding scast_eq uint_word_of_int_eq by simp
  ultimately show ?thesis by simp
qed

text \<open>
  The bound is the product of the two numbers when neither is negative: the product of
  two \<^verbatim>\<open>int32\<close> values of that kind fits in 64 bits.
\<close>

lemma liveness_limit_product:
  assumes "0 \<le> sint (response_limit ps)" and "0 \<le> sint (heart_beat_interval ps)"
  shows "uint (liveness_limit ps) = sint (response_limit ps) * sint (heart_beat_interval ps)"
proof -
  let ?a = "sint (response_limit ps)" and ?b = "sint (heart_beat_interval ps)"
  have a: "?a \<le> 2147483647" using sint_lt [of "response_limit ps"] by simp
  have b: "?b \<le> 2147483647" using sint_lt [of "heart_beat_interval ps"] by simp
  have "?a * ?b \<le> 2147483647 * 2147483647"
    using a b assms by (intro mult_mono) simp_all
  then have lt: "?a * ?b < 2 ^ 64" by simp
  have ge: "0 \<le> ?a * ?b" using assms by simp
  have "uint (liveness_limit ps) = (?a * ?b) mod 2 ^ 64"
    unfolding liveness_limit_def uint_word_ariths
    using assms by (simp only: uint_scast_nonneg) simp
  then show ?thesis using lt ge by simp
qed

text \<open>
  An add request that passes the tests on its shape, on the leader, on the id and on
  \<open>config_changing\<close> reaches the test on the pending handle; an add that starts
  stores the descriptor, builds the handle, sends the invitation and accepts.
\<close>

lemma add_srv_req_reaches_join_check:
  assumes "rq_log_entries req = [e]" and "le_val_type e = cluster_server"
    and "srv_config_deserialize (le_buf e) = Some c"
    and "role s = Leader" and "\<not> write_paused s"
    and "peers s (sc_id c) = None" and "my_id s \<noteq> sc_id c"
    and "\<not> config_changing s"
    and "srv_to_join s = Some p"
  shows "handle_add_srv_req req s =
           (let resp = new_resp (state_term s) add_server_response (my_id s) (leader s) 0
            in if last_active_ms p \<le> liveness_limit (params s)
               then Inr (set_result_code SERVER_IS_JOINING resp, s)
               else case reset_srv_to_join s of
                      Inl err \<Rightarrow> Inl err
                    | Inr s1 \<Rightarrow> start_add_srv c resp s1)"
  using assms by (simp add: handle_add_srv_req_def Let_def)

lemma start_add_srv_result:
  "start_add_srv c resp s =
     Inr (accept (next_slot (log_store s)) resp,
          s\<lparr>conf_to_add := Some c, srv_to_join := Some (new_peer c (params s)),
            effects := effects s @
              [Send_req (sc_id c)
                 (Msg ((new_req (state_term s) join_cluster_request (my_id s) (sc_id c)
                          0 (next_slot (log_store s) - 1) (quick_commit_index s))
                       \<lparr>rq_log_entries :=
                          [Log_entry (state_term s) (Buf_conf (config s)) conf]\<rparr>))]\<rparr>)"
  by (simp add: start_add_srv_def invite_srv_to_join_cluster_def emit_def new_req_def
        peer_id_def new_peer_def Let_def)

text \<open>
  Claim C5, as the code has it. An add request with one entry, of the cluster-server
  kind and holding a member descriptor whose id is neither in the peer set nor the
  node's own, reaches a node that passes the leader test and has no configuration change
  in progress, while a handle \<open>p\<close> is pending in \<^verbatim>\<open>srv_to_join_\<close>. If the time since
  the last activity of \<open>p\<close>, in milliseconds, is at most \<^verbatim>\<open>RESPONSE_LIMIT\<close> times the
  heartbeat interval, multiplied as \<^verbatim>\<open>ulong\<close>, the answer is \<open>SERVER_IS_JOINING\<close>,
  not accepted, and the server is left as it was. Otherwise the user pointer of the
  snapshot context of \<open>p\<close>, when \<open>p\<close> has one, is given to the release callback,
  \<open>p\<close> is dropped, and the request goes on as a fresh add: the descriptor is stored,
  a new handle is pending, the join invitation with the current configuration is sent to
  the new server, and the answer is accepted with the next slot. The \<^verbatim>\<open>ulong\<close> product
  is the product of the two numbers when neither is negative.
\<close>

theorem add_srv_req_while_another_is_joining:
  assumes "rq_log_entries req = [e]" and "le_val_type e = cluster_server"
    and "srv_config_deserialize (le_buf e) = Some c"
    and "role s = Leader" and "\<not> write_paused s"
    and "peers s (sc_id c) = None" and "my_id s \<noteq> sc_id c"
    and "\<not> config_changing s"
    and "srv_to_join s = Some p"
  shows "(active_timer_us p div 1000
            \<le> scast (response_limit (params s)) * scast (heart_beat_interval (params s)) \<longrightarrow>
            (\<exists>resp. handle_add_srv_req req s = Inr (resp, s) \<and>
               rs_result_code resp = SERVER_IS_JOINING \<and> \<not> rs_accepted resp)) \<and>
         (\<not> active_timer_us p div 1000
            \<le> scast (response_limit (params s)) * scast (heart_beat_interval (params s)) \<longrightarrow>
            (\<exists>resp. handle_add_srv_req req s =
               Inr (resp,
                 s\<lparr>conf_to_add := Some c,
                   srv_to_join := Some (new_peer c (params s)),
                   effects := effects s @
                     (case snapshot_sync_ctx p of
                        Some snp_ctx \<Rightarrow> [Free_user_snp_ctx snp_ctx]
                      | None \<Rightarrow> []) @
                     [Send_req (sc_id c)
                        (Msg ((new_req (state_term s) join_cluster_request (my_id s) (sc_id c)
                                 0 (next_slot (log_store s) - 1) (quick_commit_index s))
                              \<lparr>rq_log_entries :=
                                 [Log_entry (state_term s) (Buf_conf (config s)) conf]\<rparr>))]\<rparr>) \<and>
               rs_accepted resp \<and> rs_result_code resp = OK \<and>
               rs_next_idx resp = next_slot (log_store s))) \<and>
         (0 \<le> sint (response_limit (params s)) \<and> 0 \<le> sint (heart_beat_interval (params s)) \<longrightarrow>
            uint (scast (response_limit (params s)) * scast (heart_beat_interval (params s))
                    :: ulong)
              = sint (response_limit (params s)) * sint (heart_beat_interval (params s)))"
proof (intro conjI impI)
  assume "active_timer_us p div 1000
            \<le> scast (response_limit (params s)) * scast (heart_beat_interval (params s))"
  then have "last_active_ms p \<le> liveness_limit (params s)"
    by (simp add: last_active_ms_def liveness_limit_def)
  then show "\<exists>resp. handle_add_srv_req req s = Inr (resp, s) \<and>
      rs_result_code resp = SERVER_IS_JOINING \<and> \<not> rs_accepted resp"
    by (simp add: add_srv_req_reaches_join_check [OF assms] new_resp_def set_result_code_def)
next
  assume "\<not> active_timer_us p div 1000
            \<le> scast (response_limit (params s)) * scast (heart_beat_interval (params s))"
  then have stale: "\<not> last_active_ms p \<le> liveness_limit (params s)"
    by (simp add: last_active_ms_def liveness_limit_def)
  show "\<exists>resp. handle_add_srv_req req s =
      Inr (resp,
        s\<lparr>conf_to_add := Some c,
          srv_to_join := Some (new_peer c (params s)),
          effects := effects s @
            (case snapshot_sync_ctx p of
               Some snp_ctx \<Rightarrow> [Free_user_snp_ctx snp_ctx]
             | None \<Rightarrow> []) @
            [Send_req (sc_id c)
               (Msg ((new_req (state_term s) join_cluster_request (my_id s) (sc_id c)
                        0 (next_slot (log_store s) - 1) (quick_commit_index s))
                     \<lparr>rq_log_entries :=
                        [Log_entry (state_term s) (Buf_conf (config s)) conf]\<rparr>))]\<rparr>) \<and>
      rs_accepted resp \<and> rs_result_code resp = OK \<and>
      rs_next_idx resp = next_slot (log_store s)"
  proof (cases "snapshot_sync_ctx p")
    case None
    with stale assms(9) show ?thesis
      by (simp add: add_srv_req_reaches_join_check [OF assms] reset_srv_to_join_def
            start_add_srv_result accept_def new_resp_def)
  next
    case (Some snp_ctx)
    with stale assms(9) show ?thesis
      by (simp add: add_srv_req_reaches_join_check [OF assms] reset_srv_to_join_def
            start_add_srv_result accept_def new_resp_def emit_def)
  qed
next
  assume "0 \<le> sint (response_limit (params s)) \<and> 0 \<le> sint (heart_beat_interval (params s))"
  then show "uint (scast (response_limit (params s)) * scast (heart_beat_interval (params s))
                    :: ulong)
      = sint (response_limit (params s)) * sint (heart_beat_interval (params s))"
    using liveness_limit_product [of "params s"] by (simp add: liveness_limit_def)
qed

text \<open>
  With \<^verbatim>\<open>RESPONSE_LIMIT\<close> 20 and a heartbeat interval of 100 the bound is 2000 ms: a
  handle last active 2000999 microseconds ago still blocks the new request, one last
  active 2001000 microseconds ago is superseded.
\<close>

theorem add_srv_req_while_another_is_joining_witness:
  "(scast (response_limit ex_params) * scast (heart_beat_interval ex_params) :: ulong) = 2000 \<and>
   active_timer_us (ex_stale_peer 2000999) div 1000 = 2000 \<and>
   (\<exists>resp. handle_add_srv_req ex_add_req (ex_joining 2000999) = Inr (resp, ex_joining 2000999) \<and>
      rs_result_code resp = SERVER_IS_JOINING \<and> \<not> rs_accepted resp) \<and>
   active_timer_us (ex_stale_peer 2001000) div 1000 = 2001 \<and>
   (\<exists>resp s'. handle_add_srv_req ex_add_req (ex_joining 2001000) = Inr (resp, s') \<and>
      rs_accepted resp \<and> rs_next_idx resp = 3 \<and>
      srv_to_join s' = Some (new_peer (ex_srv 4) ex_params) \<and>
      hd (effects s') = Free_user_snp_ctx 77 \<and> length (effects s') = 2)"
  using add_srv_req_while_another_is_joining
          [of ex_add_req "Log_entry 0 (Buf_srv (ex_srv 4)) cluster_server" "ex_srv 4"
              "ex_joining 2000999" "ex_stale_peer 2000999"]
        add_srv_req_while_another_is_joining
          [of ex_add_req "Log_entry 0 (Buf_srv (ex_srv 4)) cluster_server" "ex_srv 4"
              "ex_joining 2001000" "ex_stale_peer 2001000"]
  by (auto simp: ex_add_req_def ex_joining_def ex_leader_def ex_stale_peer_def ex_srv_def
        ex_params_def new_peer_def next_slot_def ex_log_def)

text \<open>
  Claim C5 as stated fails: while server 4 is joining, a well-formed add request for
  server 2, which is in the peer set, is answered with \<open>SERVER_ALREADY_EXISTS\<close>
  whether the pending handle is within the bound or beyond it; the test on the id comes
  before the test on the pending handle, and the server is left as it was.
\<close>

theorem add_srv_req_duplicate_id_counterexample:
  "rq_log_entries ex_add_dup_req = [Log_entry 0 (Buf_srv (ex_srv 2)) cluster_server] \<and>
   role (ex_joining 0) = Leader \<and> \<not> write_paused (ex_joining 0) \<and>
   \<not> config_changing (ex_joining 0) \<and> uncommitted_config (ex_joining 0) = None \<and>
   srv_to_join (ex_joining 0) = Some (ex_stale_peer 0) \<and>
   last_active_ms (ex_stale_peer 0) \<le> liveness_limit (params (ex_joining 0)) \<and>
   handle_add_srv_req ex_add_dup_req (ex_joining 0) =
     Inr (set_result_code SERVER_ALREADY_EXISTS (new_resp 1 add_server_response 1 1 0),
          ex_joining 0) \<and>
   \<not> last_active_ms (ex_stale_peer 2001000) \<le> liveness_limit (params (ex_joining 2001000)) \<and>
   handle_add_srv_req ex_add_dup_req (ex_joining 2001000) =
     Inr (set_result_code SERVER_ALREADY_EXISTS (new_resp 1 add_server_response 1 1 0),
          ex_joining 2001000)"
  by (simp add: handle_add_srv_req_def ex_add_dup_req_def ex_joining_def ex_leader_def
        ex_stale_peer_def ex_srv_def ex_params_def new_peer_def last_active_ms_def
        liveness_limit_def)

subsection \<open>The answer to a join invitation\<close>

text \<open>
  While a handle is pending, an accepted join response starts \<^verbatim>\<open>sync_log_to_new_srv\<close>
  at the next index the response reports.
\<close>

lemma join_cluster_resp_accepted:
  assumes "srv_to_join s = Some p" and "rs_accepted resp"
  shows "handle_join_cluster_resp resp s = sync_log_to_new_srv (rs_next_idx resp) s"
  using assms by (simp add: handle_join_cluster_resp_def)

text \<open>
  Claim C3 at a rejected join response. Server 4 rejects the invitation while its
  handle is pending and owns the snapshot context 77. The claim has the handle released
  and the context given to the release callback, which is what \<^verbatim>\<open>reset_srv_to_join\<close>
  does on this server; \<^verbatim>\<open>handle_join_cluster_resp\<close> returns the server it was given:
  the handle is still pending and no release is recorded.
\<close>

theorem join_cluster_resp_reject_releases_nothing:
  "\<not> rs_accepted ex_join_reject \<and>
   srv_to_join (ex_joining 0) = Some (ex_stale_peer 0) \<and>
   snapshot_sync_ctx (ex_stale_peer 0) = Some 77 \<and>
   handle_join_cluster_resp ex_join_reject (ex_joining 0) = Inr (ex_joining 0) \<and>
   srv_to_join (projr (handle_join_cluster_resp ex_join_reject (ex_joining 0))) \<noteq> None \<and>
   Free_user_snp_ctx 77
     \<notin> set (effects (projr (handle_join_cluster_resp ex_join_reject (ex_joining 0)))) \<and>
   reset_srv_to_join (ex_joining 0) =
     Inr ((ex_joining 0)\<lparr>effects := [Free_user_snp_ctx 77], srv_to_join := None\<rparr>)"
  by (simp add: handle_join_cluster_resp_def ex_joining_def ex_join_reject_def new_resp_def
        ex_stale_peer_def ex_leader_def reset_srv_to_join_def emit_def)

subsection \<open>The log synchronisation step\<close>

text \<open>
  With a handle pending and a descriptor to add, every call returns and takes exactly
  one of three branches, chosen by the narrowed gap: completion, which sends nothing; a
  snapshot request; one sync-log request with one log-pack entry.
\<close>

lemma sync_log_to_new_srv_branches:
  assumes "srv_to_join s = Some p" and "conf_to_add s = Some c"
  shows "\<exists>s'. sync_log_to_new_srv start_idx s = Inr s' \<and>
     (if sync_gap start_idx s <s log_sync_stop_gap (params s) then
        config_changing s' \<and>
        (\<exists>nc. uncommitted_config s' = Some nc \<and>
           servers nc = servers (cur_or_uncommitted s) @ [c] \<and>
           entries (log_store s') =
             entries (log_store s) @ [Log_entry (state_term s) (Buf_conf nc) conf]) \<and>
        effects s' = effects s @ [Request_append_entries]
      else if start_idx < start_index (log_store s) then
        s' = emit (Send_req (peer_id p)
               (Snapshot_req (peer_id p) start_idx (state_term s) (quick_commit_index s))) s
      else
        s' = emit (Send_req (peer_id p)
               (Msg ((new_req (state_term s) sync_log_request (my_id s) (peer_id p)
                        0 (start_idx - 1) (quick_commit_index s))
                     \<lparr>rq_log_entries :=
                        [Log_entry (state_term s)
                           (pack (log_store s) start_idx
                              (min_int32 (sync_gap start_idx s)
                                 (log_sync_batch_size (params s))))
                           log_pack]\<rparr>))) s)"
  using assms
  by (simp add: sync_log_to_new_srv_def Let_def store_log_entry_def ls_append_def
        request_append_entries_def emit_def create_sync_snapshot_req_def new_req_def)

text \<open>A pack holds the \<open>cnt\<close> entries from \<open>idx\<close> on when the store has them.\<close>

lemma pack_count:
  assumes "unat (idx - start_index ls) + nat (sint cnt) \<le> length (entries ls)"
  shows "pack ls idx cnt =
           Buf_pack (map (\<lambda>i. entries ls ! (unat (idx - start_index ls) + i))
                       [0..<nat (sint cnt)])"
proof -
  let ?k = "unat (idx - start_index ls)" and ?n = "nat (sint cnt)"
  have "take ?n (drop ?k (entries ls)) = map (\<lambda>i. entries ls ! (?k + i)) [0..<?n]"
    using assms by (intro nth_equalityI) simp_all
  then show ?thesis by (simp add: pack_def)
qed

text \<open>
  The narrowed gap is the difference of the commit index and the start index as long as
  that difference fits in 32 bits.
\<close>

lemma sync_gap_exact:
  assumes "- (2 ^ 31) \<le> uint (quick_commit_index s) - uint start_idx"
    and "uint (quick_commit_index s) - uint start_idx < 2 ^ 31"
  shows "sint (sync_gap start_idx s) = uint (quick_commit_index s) - uint start_idx"
proof -
  let ?d = "uint (quick_commit_index s) - uint start_idx"
  have "uint (quick_commit_index s - start_idx) = take_bit 64 ?d"
    by (simp add: uint_word_ariths take_bit_eq_mod)
  moreover have "sint (sync_gap start_idx s)
      = signed_take_bit 31 (take_bit 32 (uint (quick_commit_index s - start_idx)))"
    unfolding sync_gap_def sint_uint unsigned_ucast_eq by simp
  ultimately have "sint (sync_gap start_idx s) = signed_take_bit 31 (take_bit 32 (take_bit 64 ?d))"
    by (simp only:)
  also have "\<dots> = signed_take_bit 31 ?d"
    by (simp add: signed_take_bit_take_bit)
  also have "\<dots> = ?d"
    using assms by (simp add: signed_take_bit_int_eq_self)
  finally show ?thesis .
qed

text \<open>
  Claim C4 at a log that has passed index \<open>2^31\<close>. The commit index is 2147483649
  and the joining server reports the start index 1: the difference is 2147483648, far
  above the stop gap 99999, and index 1 is below the earliest retained index, so a
  snapshot request is due. The difference narrowed to \<^verbatim>\<open>int32\<close> is \<open>-2147483648\<close>,
  and the code declares the catch-up complete: it sets \<open>config_changing\<close>, triggers
  replication and sends nothing to the peer.
\<close>

theorem sync_gap_narrowed_at_long_log:
  "uint (quick_commit_index ex_long_log) - uint (1 :: ulong) = 2147483648 \<and>
   sint (log_sync_stop_gap (params ex_long_log)) = 99999 \<and>
   (1 :: ulong) < start_index (log_store ex_long_log) \<and>
   sint (sync_gap 1 ex_long_log) = - 2147483648 \<and>
   \<not> isl (sync_log_to_new_srv 1 ex_long_log) \<and>
   config_changing (projr (sync_log_to_new_srv 1 ex_long_log)) \<and>
   effects (projr (sync_log_to_new_srv 1 ex_long_log)) = [Request_append_entries]"
  by (simp add: ex_long_log_def ex_joining_def ex_leader_def ex_params_def sync_gap_def
        sync_log_to_new_srv_def Let_def word_sless_alt store_log_entry_def
        request_append_entries_def emit_def ex_log_def)

subsection \<open>Failure recovery\<close>

lemma erase_only_peer:
  fixes m :: "int32 \<rightharpoonup> peer"
  assumes "card (dom m) = 1" and "m k \<noteq> None"
  shows "m(k := None) = Map.empty"
proof -
  from assms(1) obtain x where x: "dom m = {x}" by (rule card_1_singletonE)
  with assms(2) have "k = x" by auto
  with x have "dom (m(k := None)) = {}" by simp
  then show ?thesis by (simp only: dom_eq_empty_conv)
qed

text \<open>
  Claim C8, as the code has it. After a failed leave request, when the peer set
  holds exactly one handle and it is the one of the failed peer's id, the heartbeat of
  that handle is switched off and the handle leaves the peer set, which is then empty;
  when the peer set holds exactly one handle and it is not of that id, the peer set is
  left alone and no heartbeat is switched off. In every case, whatever the size of the
  peer set, \<^verbatim>\<open>rm_srv_from_cluster\<close> then runs for that id: the configuration without
  that member is stored as the uncommitted configuration and appended to the log as a
  configuration entry, and \<open>config_changing\<close> is set.
\<close>

theorem leave_rpc_err_removes_peer:
  "let found = (card (dom (peers s)) = 1 \<and> peers s (peer_id p) \<noteq> None);
       s1 = (if found
             then s\<lparr>effects := effects s @ [Enable_hb (peer_id p) False],
                    peers := (peers s)(peer_id p := None)\<rparr>
             else s);
       s' = rm_srv_from_cluster (peer_id p) s1;
       cur_conf = cur_or_uncommitted s;
       new_conf = \<lparr>log_idx = next_slot (log_store s), prev_log_idx = log_idx cur_conf,
                   async_replication = async_replication cur_conf,
                   user_ctx = user_ctx cur_conf,
                   servers = filter (\<lambda>c. sc_id c \<noteq> peer_id p) (servers cur_conf)\<rparr>
   in handle_join_leave_rpc_err leave_cluster_request p s = Inr s' \<and>
      (found \<longrightarrow> peers s' = Map.empty \<and>
         effects s' = effects s @ [Enable_hb (peer_id p) False, Request_append_entries]) \<and>
      (card (dom (peers s)) = 1 \<and> peers s (peer_id p) = None \<longrightarrow>
         peers s' = peers s \<and> effects s' = effects s @ [Request_append_entries]) \<and>
      peer_id p \<notin> sc_id ` set (servers new_conf) \<and>
      uncommitted_config s' = Some new_conf \<and> config_changing s' \<and>
      entries (log_store s') =
        entries (log_store s) @ [Log_entry (state_term s) (Buf_conf new_conf) conf]"
proof (cases "card (dom (peers s)) = 1 \<and> peers s (peer_id p) \<noteq> None")
  case True
  then have "(peers s)(peer_id p := None) = Map.empty"
    by (simp add: erase_only_peer)
  with True show ?thesis
    by (auto simp: handle_join_leave_rpc_err_def Let_def emit_def rm_srv_from_cluster_fields
          cur_or_uncommitted_def split: option.splits)
next
  case False
  then show ?thesis
    by (auto simp: handle_join_leave_rpc_err_def Let_def emit_def rm_srv_from_cluster_fields
          cur_or_uncommitted_def split: option.splits)
qed

text \<open>The cluster of two, and the leave request to server 2 has failed.\<close>

theorem leave_rpc_err_removes_peer_witness:
  "card (dom (peers ex_two)) = 1 \<and> peers ex_two 2 \<noteq> None \<and>
   (\<exists>s'. handle_join_leave_rpc_err leave_cluster_request (new_peer (ex_srv 2) ex_params) ex_two
            = Inr s' \<and>
      peers s' = Map.empty \<and>
      effects s' = [Enable_hb 2 False, Request_append_entries] \<and>
      uncommitted_config s' =
        Some \<lparr>log_idx = 3, prev_log_idx = 2, async_replication = True, user_ctx = ''new'',
              servers = [ex_srv 1]\<rparr> \<and>
      config_changing s')"
  using leave_rpc_err_removes_peer [of ex_two "new_peer (ex_srv 2) ex_params"]
  by (simp add: Let_def ex_two_def ex_leader_def peer_id_def new_peer_def ex_srv_def
        cur_or_uncommitted_def ex_uncommitted_def next_slot_def ex_log_def)

text \<open>
  Claim C8 as stated fails: the peer set of the cluster of two holds one handle, that
  of server 2, and the failed leave request was for server 3, removed before. The code
  finds no handle for 3, switches no heartbeat off and leaves the peer set alone; only
  \<^verbatim>\<open>rm_srv_from_cluster\<close> runs.
\<close>

theorem leave_rpc_err_unknown_peer_counterexample:
  "card (dom (peers ex_two)) = 1 \<and>
   handle_join_leave_rpc_err leave_cluster_request (new_peer (ex_srv 3) ex_params) ex_two
     = Inr (rm_srv_from_cluster 3 ex_two) \<and>
   effects (rm_srv_from_cluster 3 ex_two) = [Request_append_entries] \<and>
   Enable_hb 3 False \<notin> set (effects (rm_srv_from_cluster 3 ex_two)) \<and>
   peers (rm_srv_from_cluster 3 ex_two) = peers ex_two"
  by (simp add: handle_join_leave_rpc_err_def rm_srv_from_cluster_fields ex_two_def
        ex_leader_def peer_id_def new_peer_def ex_srv_def)

subsection \<open>The flag and the uncommitted configuration\<close>




end
